theory Spec2Isabelle
  imports Main "HOL-Library.Word" "HOL-Library.Multiset"
begin

unbundle bit_operations_syntax

section \<open>Widget registration and widget-state coalescing\<close>

text \<open>
  A shallow embedding of \<^verbatim>\<open>streamlit/runtime/state/widgets.py\<close>:
  the widget-id derivation (\<^verbatim>\<open>_get_widget_id\<close>), the per-run registrar
  (\<^verbatim>\<open>register_widget\<close>) and the state coalescer
  (\<^verbatim>\<open>coalesce_widget_states\<close>).

  Python objects that the functions mutate (the element proto, the script run context)
  are passed in and returned updated, also when the call raises. A raised exception is
  the \<open>Inl\<close> branch of the result. A Python \<^verbatim>\<open>str\<close> is a \<open>string\<close> whose
  characters are code points below 256; \<^verbatim>\<open>bytes\<close> are lists of 8-bit words.
\<close>

subsection \<open>Bytes, UTF-8 and MD5 (what \<^verbatim>\<open>str.encode\<close> and \<^verbatim>\<open>hashlib\<close> compute)\<close>

type_synonym byte = "8 word"
type_synonym u32 = "32 word"

definition encode_char :: "char \<Rightarrow> byte list" where
  \<comment> \<open>UTF-8 of one code point below 256: one byte below 128, two bytes from 128 on.\<close>
  "encode_char c =
     (let n = (of_char c :: nat)
      in if n < 128 then [of_nat n] else [of_nat (192 + n div 64), of_nat (128 + n mod 64)])"

definition encode_utf8 :: "string \<Rightarrow> byte list" where
  "encode_utf8 s = concat (map encode_char s)"

definition md5_K :: "u32 list" where
  "md5_K =
    [0xd76aa478, 0xe8c7b756, 0x242070db, 0xc1bdceee,
     0xf57c0faf, 0x4787c62a, 0xa8304613, 0xfd469501,
     0x698098d8, 0x8b44f7af, 0xffff5bb1, 0x895cd7be,
     0x6b901122, 0xfd987193, 0xa679438e, 0x49b40821,
     0xf61e2562, 0xc040b340, 0x265e5a51, 0xe9b6c7aa,
     0xd62f105d, 0x02441453, 0xd8a1e681, 0xe7d3fbc8,
     0x21e1cde6, 0xc33707d6, 0xf4d50d87, 0x455a14ed,
     0xa9e3e905, 0xfcefa3f8, 0x676f02d9, 0x8d2a4c8a,
     0xfffa3942, 0x8771f681, 0x6d9d6122, 0xfde5380c,
     0xa4beea44, 0x4bdecfa9, 0xf6bb4b60, 0xbebfbc70,
     0x289b7ec6, 0xeaa127fa, 0xd4ef3085, 0x04881d05,
     0xd9d4d039, 0xe6db99e5, 0x1fa27cf8, 0xc4ac5665,
     0xf4292244, 0x432aff97, 0xab9423a7, 0xfc93a039,
     0x655b59c3, 0x8f0ccc92, 0xffeff47d, 0x85845dd1,
     0x6fa87e4f, 0xfe2ce6e0, 0xa3014314, 0x4e0811a1,
     0xf7537e82, 0xbd3af235, 0x2ad7d2bb, 0xeb86d391]"

definition md5_s :: "nat list" where
  "md5_s =
    [7, 12, 17, 22, 7, 12, 17, 22, 7, 12, 17, 22, 7, 12, 17, 22,
     5, 9, 14, 20, 5, 9, 14, 20, 5, 9, 14, 20, 5, 9, 14, 20,
     4, 11, 16, 23, 4, 11, 16, 23, 4, 11, 16, 23, 4, 11, 16, 23,
     6, 10, 15, 21, 6, 10, 15, 21, 6, 10, 15, 21, 6, 10, 15, 21]"

definition rotl32 :: "u32 \<Rightarrow> nat \<Rightarrow> u32" where
  "rotl32 x n = push_bit n x OR drop_bit (32 - n) x"

definition le_word32 :: "byte list \<Rightarrow> u32" where
  \<comment> \<open>Four bytes, least significant first, as one 32-bit word.\<close>
  "le_word32 bs = foldr (\<lambda>b acc. ucast b OR push_bit 8 acc) bs 0"

definition le_bytes32 :: "u32 \<Rightarrow> byte list" where
  "le_bytes32 w = map (\<lambda>j. ucast (drop_bit (8 * j) w)) [0..<4]"

definition md5_pad :: "byte list \<Rightarrow> byte list" where
  \<comment> \<open>The message, a 1 bit, zeros up to 56 modulo 64 bytes, the bit length in 64 bits.\<close>
  "md5_pad msg =
     msg @ [0x80] @ replicate ((119 - length msg mod 64) mod 64) 0
         @ map (\<lambda>j. ucast (drop_bit (8 * j) (of_nat (8 * length msg) :: 64 word))) [0..<8]"

definition md5_blocks :: "byte list \<Rightarrow> byte list list" where
  "md5_blocks bs = map (\<lambda>j. take 64 (drop (64 * j) bs)) [0..<length bs div 64]"

definition block_words :: "byte list \<Rightarrow> u32 list" where
  "block_words blk = map (\<lambda>j. le_word32 (take 4 (drop (4 * j) blk))) [0..<16]"

definition md5_round :: "u32 list \<Rightarrow> u32 \<times> u32 \<times> u32 \<times> u32 \<Rightarrow> nat \<Rightarrow> u32 \<times> u32 \<times> u32 \<times> u32" where
  "md5_round M st i =
     (case st of (A, B, C, D) \<Rightarrow>
        let (F, g) =
              (if i < 16 then ((B AND C) OR (NOT B AND D), i)
               else if i < 32 then ((D AND B) OR (NOT D AND C), (5 * i + 1) mod 16)
               else if i < 48 then (B XOR C XOR D, (3 * i + 5) mod 16)
               else (C XOR (B OR NOT D), (7 * i) mod 16));
            F' = F + A + md5_K ! i + M ! g
        in (D, B + rotl32 F' (md5_s ! i), B, C))"

definition md5_block :: "u32 \<times> u32 \<times> u32 \<times> u32 \<Rightarrow> byte list \<Rightarrow> u32 \<times> u32 \<times> u32 \<times> u32" where
  "md5_block st blk =
     (case st of (a0, b0, c0, d0) \<Rightarrow>
        case foldl (md5_round (block_words blk)) st [0..<64] of
          (A, B, C, D) \<Rightarrow> (a0 + A, b0 + B, c0 + C, d0 + D))"

definition md5 :: "byte list \<Rightarrow> byte list" where
  "md5 msg =
     (case foldl md5_block (0x67452301, 0xefcdab89, 0x98badcfe, 0x10325476)
             (md5_blocks (md5_pad msg)) of
        (A, B, C, D) \<Rightarrow> concat (map le_bytes32 [A, B, C, D]))"

definition hex_byte :: "byte \<Rightarrow> string" where
  "hex_byte b =
     [''0123456789abcdef'' ! (unat b div 16), ''0123456789abcdef'' ! (unat b mod 16)]"

text \<open>
  The hash object of \<^verbatim>\<open>hashlib.new("md5")\<close>: the bytes fed to it so far.
  \<^verbatim>\<open>update\<close> appends, \<^verbatim>\<open>hexdigest\<close> is the MD5 of all of them in lower-case hex.
\<close>

type_synonym md5_hash = "byte list"

definition hashlib_new_md5 :: md5_hash where
  "hashlib_new_md5 = []"

definition update :: "md5_hash \<Rightarrow> byte list \<Rightarrow> md5_hash" where
  "update h bs = h @ bs"

definition hexdigest :: "md5_hash \<Rightarrow> string" where
  "hexdigest h = concat (map hex_byte (md5 h))"

subsection \<open>Widget ids\<close>

text \<open>
  The element proto (one of the sixteen widget messages): its \<^verbatim>\<open>id\<close> field and the
  rest of its fields. The message classes are generated code that is not part of the
  sources, so \<^verbatim>\<open>SerializeToString\<close> is a parameter of the functions that call it,
  and so is the constant \<^verbatim>\<open>GENERATED_WIDGET_KEY_PREFIX\<close> of
  \<^verbatim>\<open>session_state.py\<close>.
\<close>

record 'f widget_proto =
  id_proto :: string
  other_fields :: 'f

definition str_of_user_key :: "string option \<Rightarrow> string" where
  \<comment> \<open>What an f-string prints for \<^verbatim>\<open>{user_key}\<close>: \<^verbatim>\<open>str(None)\<close> is \<^verbatim>\<open>None\<close>.\<close>
  "str_of_user_key user_key = (case user_key of None \<Rightarrow> ''None'' | Some k \<Rightarrow> k)"

definition get_widget_id ::
  "string \<Rightarrow> ('f widget_proto \<Rightarrow> byte list) \<Rightarrow> string \<Rightarrow> 'f widget_proto \<Rightarrow> string option \<Rightarrow> string" where
  "get_widget_id GENERATED_WIDGET_KEY_PREFIX SerializeToString element_type element_proto user_key =
     (let h = hashlib_new_md5;
          h = update h (encode_utf8 element_type);
          h = update h (SerializeToString element_proto)
      in GENERATED_WIDGET_KEY_PREFIX @ ''-'' @ hexdigest h @ ''-'' @ str_of_user_key user_key)"

subsection \<open>The duplicate-widget message\<close>

definition nl :: string where
  "nl = [CHR 0x0A]"

definition bq :: string where
  \<comment> \<open>the backquote\<close>
  "bq = [CHR 0x60]"

definition sq :: string where
  \<comment> \<open>the single quote\<close>
  "sq = [CHR 0x27]"

definition build_duplicate_widget_message :: "string \<Rightarrow> string option \<Rightarrow> string" where
  \<comment> \<open>The two templates after \<^verbatim>\<open>textwrap.dedent\<close>, \<^verbatim>\<open>strip("\n")\<close> and \<^verbatim>\<open>format\<close>.\<close>
  "build_duplicate_widget_message widget_func_name user_key =
     (case user_key of
        Some k \<Rightarrow>
          ''There are multiple identical '' @ bq @ ''st.'' @ widget_func_name @ bq
            @ '' widgets with'' @ nl
          @ bq @ ''key='' @ sq @ k @ sq @ bq @ ''.'' @ nl
          @ nl
          @ ''To fix this, please make sure that the '' @ bq @ ''key'' @ bq
            @ '' argument is unique for'' @ nl
          @ ''each '' @ bq @ ''st.'' @ widget_func_name @ bq @ '' you create.''
      | None \<Rightarrow>
          ''There are multiple identical '' @ bq @ ''st.'' @ widget_func_name @ bq
            @ '' widgets with the'' @ nl
          @ ''same generated key.'' @ nl
          @ nl
          @ ''When a widget is created, it'' @ sq @ ''s assigned an internal key based on'' @ nl
          @ ''its structure. Multiple widgets with an identical structure will'' @ nl
          @ ''result in the same internal key, which causes this error.'' @ nl
          @ nl
          @ ''To fix this error, please pass a unique '' @ bq @ ''key'' @ bq
            @ '' argument to'' @ nl
          @ bq @ ''st.'' @ widget_func_name @ bq @ ''.'')"

subsection \<open>Registering a widget\<close>

text \<open>
  The static table from element types to the value slot of \<^verbatim>\<open>WidgetState\<close> they use.
\<close>

definition ELEMENT_TYPE_TO_VALUE_TYPE :: "(string \<times> string) list" where
  "ELEMENT_TYPE_TO_VALUE_TYPE =
    [(''button'', ''trigger_value''),
     (''download_button'', ''trigger_value''),
     (''checkbox'', ''bool_value''),
     (''camera_input'', ''file_uploader_state_value''),
     (''color_picker'', ''string_value''),
     (''date_input'', ''string_array_value''),
     (''file_uploader'', ''file_uploader_state_value''),
     (''multiselect'', ''int_array_value''),
     (''number_input'', ''double_value''),
     (''radio'', ''int_value''),
     (''selectbox'', ''int_value''),
     (''slider'', ''double_array_value''),
     (''text_area'', ''string_value''),
     (''text_input'', ''string_value''),
     (''time_input'', ''string_value''),
     (''component_instance'', ''json_value'')]"

text \<open>
  The exceptions a call can end in: \<^verbatim>\<open>DuplicateWidgetID\<close> with its message, the
  \<^verbatim>\<open>KeyError\<close> of a failed table lookup with the missing key, and whatever the session
  state's own \<^verbatim>\<open>register_widget\<close> raises, passed through.
\<close>

datatype 'e error = DuplicateWidgetID string | KeyError string | SessionStateError 'e

text \<open>
  A deserializer turns a widget's protobuf value (or \<^verbatim>\<open>None\<close>) and the widget id
  into the value the widget call returns; a serializer turns that value back.
\<close>

type_synonym ('w, 'T) widget_deserializer = "'w option \<Rightarrow> string \<Rightarrow> 'T"
type_synonym ('w, 'T) widget_serializer = "'T \<Rightarrow> 'w"

record 'T register_widget_result =
  value_res :: 'T
  value_changed :: bool

definition failure :: "('w, 'T) widget_deserializer \<Rightarrow> 'T register_widget_result" where
  \<comment> \<open>Modelled from the spec: \<^verbatim>\<open>RegisterWidgetResult.failure\<close> is defined in
      \<^verbatim>\<open>session_state.py\<close>, which is not among the sources. The spec: a failure result
      carrying only the deserializer's notion of a default value, that is the deserializer
      applied to no protobuf value; the user interface needs no update.\<close>
  "failure deserializer = \<lparr>value_res = deserializer None [], value_changed = False\<rparr>"

record ('w, 'T, 'cb, 'a, 'k) widget_metadata =
  id_meta :: string
  deserializer_meta :: "('w, 'T) widget_deserializer"
  serializer_meta :: "('w, 'T) widget_serializer"
  value_type :: string
  callback :: "'cb option"
  callback_args :: "'a option"
  callback_kwargs :: "'k option"

text \<open>
  The script run context: the widget ids and the user keys claimed in this run, and the
  session state. The session state's \<^verbatim>\<open>register_widget\<close> is outside the sources and
  is a parameter: from the session state, the metadata and the user key to a result or an
  exception of its own, and the session state after the call.
\<close>

record 'ss script_run_context =
  widget_ids_this_run :: "string set"
  widget_user_keys_this_run :: "string set"
  session_state :: 'ss

definition register_widget ::
  "string \<Rightarrow> ('f widget_proto \<Rightarrow> byte list)
    \<Rightarrow> ('ss \<Rightarrow> ('w, 'T, 'cb, 'a, 'k) widget_metadata \<Rightarrow> string option
          \<Rightarrow> ('e + 'T register_widget_result) \<times> 'ss)
    \<Rightarrow> string \<Rightarrow> 'f widget_proto \<Rightarrow> ('w, 'T) widget_deserializer \<Rightarrow> ('w, 'T) widget_serializer
    \<Rightarrow> 'ss script_run_context option \<Rightarrow> string option \<Rightarrow> string option
    \<Rightarrow> 'cb option \<Rightarrow> 'a option \<Rightarrow> 'k option
    \<Rightarrow> ('e error + 'T register_widget_result) \<times> 'f widget_proto \<times> 'ss script_run_context option" where
  "register_widget GENERATED_WIDGET_KEY_PREFIX SerializeToString session_state_register_widget
       element_type element_proto deserializer serializer ctx user_key widget_func_name
       on_change_handler args kwargs =
     (let widget_id = get_widget_id GENERATED_WIDGET_KEY_PREFIX SerializeToString
                        element_type element_proto user_key;
          element_proto = element_proto\<lparr>id_proto := widget_id\<rparr>;
          duplicate = DuplicateWidgetID
                        (build_duplicate_widget_message
                           (case widget_func_name of Some n \<Rightarrow> n | None \<Rightarrow> element_type)
                           user_key)
      in case ctx of
           None \<Rightarrow> (Inr (failure deserializer), element_proto, None)
         | Some ctx \<Rightarrow>
             if (case user_key of
                   Some k \<Rightarrow> k \<in> widget_user_keys_this_run ctx
                 | None \<Rightarrow> False)
             then (Inl duplicate, element_proto, Some ctx)
             else
               let ctx = (case user_key of
                            Some k \<Rightarrow> ctx\<lparr>widget_user_keys_this_run :=
                                             insert k (widget_user_keys_this_run ctx)\<rparr>
                          | None \<Rightarrow> ctx);
                   new_widget = widget_id \<notin> widget_ids_this_run ctx
               in if new_widget then
                    let ctx = ctx\<lparr>widget_ids_this_run := insert widget_id (widget_ids_this_run ctx)\<rparr>
                    in case map_of ELEMENT_TYPE_TO_VALUE_TYPE element_type of
                         None \<Rightarrow> (Inl (KeyError element_type), element_proto, Some ctx)
                       | Some vt \<Rightarrow>
                           let metadata =
                                 \<lparr>id_meta = widget_id, deserializer_meta = deserializer,
                                  serializer_meta = serializer, value_type = vt,
                                  callback = on_change_handler, callback_args = args,
                                  callback_kwargs = kwargs\<rparr>;
                               (r, ss) = session_state_register_widget (session_state ctx)
                                           metadata user_key
                           in ((case r of Inl e \<Rightarrow> Inl (SessionStateError e) | Inr res \<Rightarrow> Inr res),
                               element_proto, Some (ctx\<lparr>session_state := ss\<rparr>))
                  else (Inl duplicate, element_proto, Some ctx))"

subsection \<open>Widget states and their coalescing\<close>

datatype widget_value =
  \<comment> \<open>Modelled from the spec: the \<^verbatim>\<open>WidgetState\<close> message is generated code that is
      not among the sources. The spec: a tagged union occupying exactly one of a fixed set
      of value slots; the slots are those the table above names. A double is its 64 bits.\<close>
    TriggerValue bool
  | BoolValue bool
  | DoubleValue "64 word"
  | IntValue int
  | StringValue string
  | DoubleArrayValue "64 word list"
  | IntArrayValue "int list"
  | StringArrayValue "string list"
  | JsonValue string
  | FileUploaderStateValue "byte list"

record widget_state =
  id_state :: string
  value_oneof :: "widget_value option"

record widget_states =
  widgets :: "widget_state list"

fun slot_name :: "widget_value \<Rightarrow> string" where
  "slot_name (TriggerValue _) = ''trigger_value''"
| "slot_name (BoolValue _) = ''bool_value''"
| "slot_name (DoubleValue _) = ''double_value''"
| "slot_name (IntValue _) = ''int_value''"
| "slot_name (StringValue _) = ''string_value''"
| "slot_name (DoubleArrayValue _) = ''double_array_value''"
| "slot_name (IntArrayValue _) = ''int_array_value''"
| "slot_name (StringArrayValue _) = ''string_array_value''"
| "slot_name (JsonValue _) = ''json_value''"
| "slot_name (FileUploaderStateValue _) = ''file_uploader_state_value''"

definition WhichOneof :: "widget_state \<Rightarrow> string option" where
  \<comment> \<open>\<^verbatim>\<open>WhichOneof("value")\<close>: the name of the slot that is set, \<^verbatim>\<open>None\<close> when none is.\<close>
  "WhichOneof wstate = map_option slot_name (value_oneof wstate)"

definition trigger_value :: "widget_state \<Rightarrow> bool" where
  \<comment> \<open>Reading the field \<^verbatim>\<open>trigger_value\<close>: its value when set, the default \<^verbatim>\<open>False\<close> otherwise.\<close>
  "trigger_value wstate = (case value_oneof wstate of Some (TriggerValue b) \<Rightarrow> b | _ \<Rightarrow> False)"

text \<open>
  A Python \<^verbatim>\<open>dict\<close>: the items in insertion order, each key once. Storing under a key
  that is present replaces the value in place; a new key goes to the end.
\<close>

type_synonym ('k, 'v) dict = "('k \<times> 'v) list"

fun dict_set :: "('k, 'v) dict \<Rightarrow> 'k \<Rightarrow> 'v \<Rightarrow> ('k, 'v) dict" where
  "dict_set [] k v = [(k, v)]"
| "dict_set ((k', v') # d) k v = (if k' = k then (k', v) # d else (k', v') # dict_set d k v)"

definition dict_get :: "('k, 'v) dict \<Rightarrow> 'k \<Rightarrow> 'v option" where
  "dict_get d k = map_of d k"

definition dict_values :: "('k, 'v) dict \<Rightarrow> 'v list" where
  "dict_values d = map snd d"

definition index_by_id :: "widget_state list \<Rightarrow> (string, widget_state) dict" where
  \<comment> \<open>The dict comprehension \<^verbatim>\<open>{wstate.id: wstate for wstate in new_states.widgets}\<close>.\<close>
  "index_by_id ws = foldl (\<lambda>d wstate. dict_set d (id_state wstate) wstate) [] ws"

definition coalesce_step ::
  "(string, widget_state) dict \<Rightarrow> widget_state \<Rightarrow> (string, widget_state) dict" where
  \<comment> \<open>The body of the loop over the old states. A message object is always truthy, so
      \<^verbatim>\<open>if new_trigger_val and ...\<close> tests that the lookup found an entry.\<close>
  "coalesce_step states_by_id old_state =
     (if WhichOneof old_state = Some ''trigger_value'' \<and> trigger_value old_state then
        (case dict_get states_by_id (id_state old_state) of
           None \<Rightarrow> states_by_id
         | Some new_trigger_val \<Rightarrow>
             if WhichOneof new_trigger_val = Some ''trigger_value''
             then dict_set states_by_id (id_state old_state) old_state
             else states_by_id)
      else states_by_id)"

definition coalesce_widget_states :: "widget_states \<Rightarrow> widget_states \<Rightarrow> widget_states" where
  "coalesce_widget_states old_states new_states =
     (let states_by_id = index_by_id (widgets new_states);
          states_by_id = foldl coalesce_step states_by_id (widgets old_states)
      in \<lparr>widgets = dict_values states_by_id\<rparr>)"

text \<open>
  What a snapshot holds for an identity: the last entry with that id, as indexing the
  snapshot by id gives it; \<open>None\<close> when no entry has the id.
\<close>

fun last_with_id :: "widget_state list \<Rightarrow> string \<Rightarrow> widget_state option" where
  "last_with_id [] i = None"
| "last_with_id (w # ws) i =
     (case last_with_id ws i of
        Some e \<Rightarrow> Some e
      | None \<Rightarrow> if id_state w = i then Some w else None)"

definition entry_of :: "widget_states \<Rightarrow> string \<Rightarrow> widget_state option" where
  "entry_of snapshot i = last_with_id (widgets snapshot) i"

definition is_trigger :: "widget_state \<Rightarrow> bool" where
  "is_trigger wstate = (WhichOneof wstate = Some ''trigger_value'')"

definition dict_inv :: "(string, widget_state) dict \<Rightarrow> bool" where
  \<comment> \<open>The invariant of \<^verbatim>\<open>states_by_id\<close>: each key once, each state under its own id.\<close>
  "dict_inv d = (distinct (map fst d) \<and> list_all (\<lambda>(k, v). id_state v = k) d)"

subsection \<open>Reading a call's outcome\<close>

fun is_DuplicateWidgetID :: "'e error + 'r \<Rightarrow> bool" where
  "is_DuplicateWidgetID (Inl (DuplicateWidgetID msg)) = True"
| "is_DuplicateWidgetID _ = False"

subsection \<open>A concrete run\<close>

text \<open>
  Stand-ins for what lies outside the sources, to run the functions on concrete inputs:
  a key prefix, a serializer (the id's bytes, then the other fields' bytes), a session
  state that answers every registration with the deserializer's default, and a button
  whose only other field is the label \<^verbatim>\<open>OK\<close> in protobuf's encoding.
\<close>

definition example_prefix :: string where
  "example_prefix = ''$$GENERATED_WIDGET_KEY''"

definition example_serialize :: "byte list widget_proto \<Rightarrow> byte list" where
  "example_serialize p = encode_utf8 (id_proto p) @ other_fields p"

definition example_deserializer :: "(bool, bool) widget_deserializer" where
  "example_deserializer v i = (case v of Some b \<Rightarrow> b | None \<Rightarrow> False)"

definition example_serializer :: "(bool, bool) widget_serializer" where
  "example_serializer b = b"

definition example_store ::
  "unit \<Rightarrow> (bool, bool, unit, unit, unit) widget_metadata \<Rightarrow> string option
     \<Rightarrow> (unit + bool register_widget_result) \<times> unit" where
  "example_store ss metadata user_key =
     (Inr \<lparr>value_res = deserializer_meta metadata None (id_meta metadata),
           value_changed = False\<rparr>, ss)"

definition example_button :: "byte list widget_proto" where
  "example_button = \<lparr>id_proto = [], other_fields = [0x12, 0x02, 0x4F, 0x4B]\<rparr>"

definition fresh_run :: "unit script_run_context" where
  "fresh_run = \<lparr>widget_ids_this_run = {}, widget_user_keys_this_run = {}, session_state = ()\<rparr>"

definition one_button_run :: "unit script_run_context" where
  \<comment> \<open>The run context once the example button has been registered without a key.\<close>
  "one_button_run =
     \<lparr>widget_ids_this_run =
        {get_widget_id example_prefix example_serialize ''button'' example_button None},
      widget_user_keys_this_run = {}, session_state = ()\<rparr>"

section \<open>Properties\<close>

subsection \<open>MD5 on a test vector\<close>

lemma md5_abc: "hexdigest (update hashlib_new_md5 (encode_utf8 ''abc'')) = ''900150983cd24fb0d6963f7d28e17f72''"
  by code_simp

subsection \<open>The dict and the coalescing loop\<close>

lemma map_of_dict_set: "map_of (dict_set d k v) = (map_of d)(k \<mapsto> v)"
  by (induction d k v rule: dict_set.induct) (auto simp: fun_eq_iff)

lemma keys_dict_set:
  "map fst (dict_set d k v) = (if k \<in> fst ` set d then map fst d else map fst d @ [k])"
  by (induction d k v rule: dict_set.induct) auto

lemma set_dict_set: "set (dict_set d k v) \<subseteq> insert (k, v) (set d)"
  by (induction d k v rule: dict_set.induct) auto

lemma dict_inv_set: "dict_inv d \<Longrightarrow> id_state v = k \<Longrightarrow> dict_inv (dict_set d k v)"
  unfolding dict_inv_def using set_dict_set [of d k v]
  by (auto simp: keys_dict_set list_all_iff)

lemma dict_set_same: "distinct (map fst d) \<Longrightarrow> map_of d k = Some v \<Longrightarrow> dict_set d k v = d"
  by (induction d k v rule: dict_set.induct) (auto split: if_splits)

lemma dict_inv_foldl_index:
  "dict_inv d \<Longrightarrow> dict_inv (foldl (\<lambda>d wstate. dict_set d (id_state wstate) wstate) d ws)"
  by (induction ws arbitrary: d) (auto simp: dict_inv_set)

lemma map_of_foldl_index:
  "map_of (foldl (\<lambda>d wstate. dict_set d (id_state wstate) wstate) d ws) i =
     (case last_with_id ws i of Some e \<Rightarrow> Some e | None \<Rightarrow> map_of d i)"
  by (induction ws arbitrary: d) (auto simp: map_of_dict_set split: option.splits)

lemma dict_inv_index_by_id: "dict_inv (index_by_id ws)"
  unfolding index_by_id_def by (rule dict_inv_foldl_index) (simp add: dict_inv_def)

lemma map_of_index_by_id: "map_of (index_by_id ws) i = last_with_id ws i"
  unfolding index_by_id_def by (simp add: map_of_foldl_index split: option.splits)

lemma last_with_id_values:
  "dict_inv d \<Longrightarrow> last_with_id (dict_values d) i = map_of d i"
  unfolding dict_inv_def dict_values_def
  by (induction d) (force simp: list_all_iff split: option.splits dest: map_of_SomeD)+


lemma slot_name_trigger: "slot_name v = ''trigger_value'' \<longleftrightarrow> (\<exists>b. v = TriggerValue b)"
  by (cases v) simp_all

lemma is_trigger_iff: "is_trigger w \<longleftrightarrow> (\<exists>b. value_oneof w = Some (TriggerValue b))"
  by (auto simp: is_trigger_def WhichOneof_def slot_name_trigger)

lemma is_trigger_TriggerValue: "value_oneof w = Some (TriggerValue b) \<Longrightarrow> is_trigger w"
  by (simp add: is_trigger_def WhichOneof_def)

lemma trigger_true_eq:
  "is_trigger w \<and> trigger_value w \<longleftrightarrow> w = \<lparr>id_state = id_state w, value_oneof = Some (TriggerValue True)\<rparr>"
proof
  assume "is_trigger w \<and> trigger_value w"
  then have "value_oneof w = Some (TriggerValue True)"
    by (auto simp: is_trigger_iff trigger_value_def)
  then show "w = \<lparr>id_state = id_state w, value_oneof = Some (TriggerValue True)\<rparr>"
    by (cases w) simp
next
  assume "w = \<lparr>id_state = id_state w, value_oneof = Some (TriggerValue True)\<rparr>"
  then have "value_oneof w = Some (TriggerValue True)"
    by (cases w) simp
  then show "is_trigger w \<and> trigger_value w"
    by (simp add: is_trigger_TriggerValue trigger_value_def)
qed

lemma coalesce_step_unfold:
  "coalesce_step d w =
     (if is_trigger w \<and> trigger_value w \<and> (\<exists>n. map_of d (id_state w) = Some n \<and> is_trigger n)
      then dict_set d (id_state w) w else d)"
  by (auto simp: coalesce_step_def is_trigger_def dict_get_def split: option.splits)

lemma dict_inv_coalesce_step: "dict_inv d \<Longrightarrow> dict_inv (coalesce_step d w)"
  by (simp add: coalesce_step_unfold dict_inv_set)

lemma dict_inv_foldl_coalesce: "dict_inv d \<Longrightarrow> dict_inv (foldl coalesce_step d old)"
  by (induction old arbitrary: d) (simp_all add: dict_inv_coalesce_step)

lemma map_of_coalesce_step:
  "map_of (coalesce_step d w) i =
     (if i = id_state w \<and> is_trigger w \<and> trigger_value w
           \<and> (\<exists>n. map_of d i = Some n \<and> is_trigger n)
      then Some w else map_of d i)"
  by (auto simp: coalesce_step_unfold map_of_dict_set)

lemma map_of_foldl_coalesce:
  "map_of (foldl coalesce_step d old) i =
     (if (\<exists>w \<in> set old. id_state w = i \<and> is_trigger w \<and> trigger_value w)
           \<and> (\<exists>n. map_of d i = Some n \<and> is_trigger n)
      then Some \<lparr>id_state = i, value_oneof = Some (TriggerValue True)\<rparr>
      else map_of d i)"
proof (induction old arbitrary: d)
  case Nil
  show ?case by simp
next
  case (Cons w old)
  let ?t = "\<lparr>id_state = i, value_oneof = Some (TriggerValue True)\<rparr>"
  have trig: "is_trigger ?t" by (simp add: is_trigger_TriggerValue)
  show ?case
  proof (cases "id_state w = i \<and> is_trigger w \<and> trigger_value w
                  \<and> (\<exists>n. map_of d i = Some n \<and> is_trigger n)")
    case True
    then have w: "w = ?t" using trigger_true_eq [of w] by auto
    from True have "map_of (coalesce_step d w) i = Some ?t"
      using w by (simp add: map_of_coalesce_step)
    with True trig show ?thesis
      by (simp add: Cons.IH)
  next
    case False
    then have "map_of (coalesce_step d w) i = map_of d i"
      by (auto simp: map_of_coalesce_step)
    with False show ?thesis
      by (auto simp: Cons.IH)
  qed
qed

lemma entry_of_coalesce:
  "entry_of (coalesce_widget_states old_states new_states) i =
     (if (\<exists>w \<in> set (widgets old_states). id_state w = i \<and> is_trigger w \<and> trigger_value w)
           \<and> (\<exists>n. entry_of new_states i = Some n \<and> is_trigger n)
      then Some \<lparr>id_state = i, value_oneof = Some (TriggerValue True)\<rparr>
      else entry_of new_states i)"
proof -
  have inv: "dict_inv (foldl coalesce_step (index_by_id (widgets new_states)) (widgets old_states))"
    by (rule dict_inv_foldl_coalesce) (rule dict_inv_index_by_id)
  have "entry_of (coalesce_widget_states old_states new_states) i =
          map_of (foldl coalesce_step (index_by_id (widgets new_states)) (widgets old_states)) i"
    unfolding entry_of_def coalesce_widget_states_def Let_def
    by (simp add: last_with_id_values [OF inv])
  then show ?thesis
    unfolding map_of_foldl_coalesce map_of_index_by_id entry_of_def .
qed

lemma foldl_coalesce_no_trigger:
  "\<forall>w \<in> set old. \<not> is_trigger w \<Longrightarrow> foldl coalesce_step d old = d"
  by (induction old arbitrary: d) (simp_all add: coalesce_step_unfold)

lemma foldl_index_distinct:
  "distinct (map fst d @ map id_state ws) \<Longrightarrow>
   foldl (\<lambda>d wstate. dict_set d (id_state wstate) wstate) d ws = d @ map (\<lambda>w. (id_state w, w)) ws"
proof (induction ws arbitrary: d)
  case Nil
  show ?case by simp
next
  case (Cons w ws)
  have new: "id_state w \<notin> fst ` set d" using Cons.prems by auto
  have app: "dict_set d (id_state w) w = d @ [(id_state w, w)]"
    using new by (induction d) auto
  have "distinct (map fst (d @ [(id_state w, w)]) @ map id_state ws)"
    using Cons.prems by auto
  from Cons.IH [OF this] show ?case by (simp add: app)
qed

lemma coalesce_no_trigger:
  assumes "\<forall>w \<in> set (widgets old_states). \<not> is_trigger w"
    and "distinct (map id_state (widgets new_states))"
  shows "coalesce_widget_states old_states new_states = new_states"
proof -
  have "index_by_id (widgets new_states) = map (\<lambda>w. (id_state w, w)) (widgets new_states)"
    unfolding index_by_id_def using foldl_index_distinct [of "[]" "widgets new_states"] assms(2)
    by simp
  then show ?thesis
    unfolding coalesce_widget_states_def Let_def
    by (simp add: foldl_coalesce_no_trigger [OF assms(1)] dict_values_def comp_def)
qed


lemma last_with_id_None: "last_with_id ws i = None \<longleftrightarrow> i \<notin> id_state ` set ws"
  by (induction ws) (auto split: option.splits)

lemma entry_of_member:
  "w \<in> set (widgets (coalesce_widget_states old_states new_states)) \<Longrightarrow>
   entry_of (coalesce_widget_states old_states new_states) (id_state w) = Some w"
proof -
  let ?d = "foldl coalesce_step (index_by_id (widgets new_states)) (widgets old_states)"
  assume "w \<in> set (widgets (coalesce_widget_states old_states new_states))"
  then have "w \<in> snd ` set ?d"
    by (simp add: coalesce_widget_states_def Let_def dict_values_def)
  then obtain k where kw: "(k, w) \<in> set ?d" by auto
  have inv: "dict_inv ?d"
    by (rule dict_inv_foldl_coalesce) (rule dict_inv_index_by_id)
  then have "k = id_state w" using kw by (auto simp: dict_inv_def list_all_iff)
  moreover have "map_of ?d k = Some w"
    using inv kw by (simp add: dict_inv_def)
  ultimately show ?thesis
    by (simp add: entry_of_def coalesce_widget_states_def Let_def last_with_id_values [OF inv])
qed

subsection \<open>Coalescing: the claims\<close>

text \<open>
  C1 (trigger preservation). Whenever the old snapshot has an entry for an identity \<open>i\<close>
  whose value is a trigger that is true, and the new snapshot's entry for \<open>i\<close> occupies the
  trigger slot (whatever its boolean), the coalesced snapshot's entry for \<open>i\<close> is the old
  entry, with the trigger true.
\<close>

theorem trigger_preservation:
  assumes "w \<in> set (widgets old_states)" and "id_state w = i"
    and "value_oneof w = Some (TriggerValue True)"
    and "entry_of new_states i = Some n" and "value_oneof n = Some (TriggerValue b)"
  shows "entry_of (coalesce_widget_states old_states new_states) i = Some w"
proof -
  have tw: "is_trigger w \<and> trigger_value w"
    using assms(3) by (simp add: is_trigger_TriggerValue trigger_value_def)
  then have w: "w = \<lparr>id_state = i, value_oneof = Some (TriggerValue True)\<rparr>"
    using trigger_true_eq [of w] assms(2) by simp
  have "is_trigger n" using assms(5) by (rule is_trigger_TriggerValue)
  with tw assms(1,2,4) have
    "(\<exists>w \<in> set (widgets old_states). id_state w = i \<and> is_trigger w \<and> trigger_value w)
       \<and> (\<exists>n. entry_of new_states i = Some n \<and> is_trigger n)"
    by blast
  then have "entry_of (coalesce_widget_states old_states new_states) i =
               Some \<lparr>id_state = i, value_oneof = Some (TriggerValue True)\<rparr>"
    unfolding entry_of_coalesce by (rule if_P)
  then show ?thesis
    using w by simp
qed

text \<open>
  The spec's example: old \<open>{a: trigger(true)}\<close>, new \<open>{a: trigger(false)}\<close>.
\<close>

theorem trigger_preservation_witness:
  "entry_of
     (coalesce_widget_states
        \<lparr>widgets = [\<lparr>id_state = ''a'', value_oneof = Some (TriggerValue True)\<rparr>]\<rparr>
        \<lparr>widgets = [\<lparr>id_state = ''a'', value_oneof = Some (TriggerValue False)\<rparr>]\<rparr>) ''a'' =
   Some \<lparr>id_state = ''a'', value_oneof = Some (TriggerValue True)\<rparr>"
  by (rule trigger_preservation
        [where n = "\<lparr>id_state = ''a'', value_oneof = Some (TriggerValue False)\<rparr>" and b = False])
     (simp_all add: entry_of_def)

text \<open>
  C2 (trigger non-leak and absence handling). For an identity \<open>i\<close> whose old value is a
  trigger that is true: when the new snapshot has no entry with the id \<open>i\<close>, the coalesced
  snapshot has none either; when the new snapshot's entry for \<open>i\<close> does not occupy the
  trigger slot, the coalesced snapshot's entry for \<open>i\<close> is exactly that new entry.
\<close>

theorem trigger_non_leak:
  assumes "w \<in> set (widgets old_states)" and "id_state w = i"
    and "value_oneof w = Some (TriggerValue True)"
  shows "(i \<notin> id_state ` set (widgets new_states) \<longrightarrow>
            i \<notin> id_state ` set (widgets (coalesce_widget_states old_states new_states)))
       \<and> (\<forall>n. entry_of new_states i = Some n \<and> \<not> is_trigger n \<longrightarrow>
            entry_of (coalesce_widget_states old_states new_states) i = Some n)"
proof (intro conjI impI allI)
  assume "i \<notin> id_state ` set (widgets new_states)"
  then have "entry_of new_states i = None"
    by (simp add: entry_of_def last_with_id_None)
  then have "entry_of (coalesce_widget_states old_states new_states) i = None"
    by (simp add: entry_of_coalesce)
  then show "i \<notin> id_state ` set (widgets (coalesce_widget_states old_states new_states))"
    by (simp add: entry_of_def last_with_id_None)
next
  fix n
  assume "entry_of new_states i = Some n \<and> \<not> is_trigger n"
  then show "entry_of (coalesce_widget_states old_states new_states) i = Some n"
    by (simp add: entry_of_coalesce)
qed

text \<open>
  The spec's two examples: old \<open>{a: trigger(true)}\<close> against the empty new snapshot, and
  against new \<open>{a: stringValue("x")}\<close>.
\<close>

theorem trigger_non_leak_witness:
  "''a'' \<notin> id_state ` set (widgets (coalesce_widget_states
        \<lparr>widgets = [\<lparr>id_state = ''a'', value_oneof = Some (TriggerValue True)\<rparr>]\<rparr>
        \<lparr>widgets = []\<rparr>))
   \<and> entry_of
     (coalesce_widget_states
        \<lparr>widgets = [\<lparr>id_state = ''a'', value_oneof = Some (TriggerValue True)\<rparr>]\<rparr>
        \<lparr>widgets = [\<lparr>id_state = ''a'', value_oneof = Some (StringValue ''x'')\<rparr>]\<rparr>) ''a'' =
   Some \<lparr>id_state = ''a'', value_oneof = Some (StringValue ''x'')\<rparr>"
  using
    trigger_non_leak [of "\<lparr>id_state = ''a'', value_oneof = Some (TriggerValue True)\<rparr>"
      "\<lparr>widgets = [\<lparr>id_state = ''a'', value_oneof = Some (TriggerValue True)\<rparr>]\<rparr>" "''a''"
      "\<lparr>widgets = []\<rparr>"]
    trigger_non_leak [of "\<lparr>id_state = ''a'', value_oneof = Some (TriggerValue True)\<rparr>"
      "\<lparr>widgets = [\<lparr>id_state = ''a'', value_oneof = Some (TriggerValue True)\<rparr>]\<rparr>" "''a''"
      "\<lparr>widgets = [\<lparr>id_state = ''a'', value_oneof = Some (StringValue ''x'')\<rparr>]\<rparr>"]
  by (simp add: entry_of_def is_trigger_def WhichOneof_def)

text \<open>
  The first half of C6 as it is stated does not hold: a trigger that is true in the new
  snapshot alone passes through. Here the old snapshot is empty and the coalesced
  snapshot holds a true trigger for \<open>a\<close>.
\<close>

theorem trigger_invented_counterexample:
  "entry_of
     (coalesce_widget_states
        \<lparr>widgets = []\<rparr>
        \<lparr>widgets = [\<lparr>id_state = ''a'', value_oneof = Some (TriggerValue True)\<rparr>]\<rparr>) ''a'' =
     Some \<lparr>id_state = ''a'', value_oneof = Some (TriggerValue True)\<rparr>
   \<and> entry_of \<lparr>widgets = []\<rparr> ''a'' = None"
  by (simp add: entry_of_def coalesce_widget_states_def index_by_id_def dict_values_def)

text \<open>
  C6 (coalescer trigger invariant), amended. Every entry of the coalesced snapshot whose
  value is a trigger that is true is an entry of the old snapshot or is the new snapshot's
  own entry for its identity; and in either case the new snapshot's entry for that identity
  occupies the trigger slot. So a trigger-true value is never placed on an identity whose
  new entry occupies another slot, or that the new snapshot does not hold.
\<close>

theorem trigger_origin:
  assumes "w \<in> set (widgets (coalesce_widget_states old_states new_states))"
    and "value_oneof w = Some (TriggerValue True)"
  shows "(w \<in> set (widgets old_states) \<or> entry_of new_states (id_state w) = Some w)
       \<and> (\<exists>n. entry_of new_states (id_state w) = Some n \<and> is_trigger n)"
proof -
  have tw: "is_trigger w" using assms(2) by (rule is_trigger_TriggerValue)
  have e: "entry_of (coalesce_widget_states old_states new_states) (id_state w) = Some w"
    using assms(1) by (rule entry_of_member)
  show ?thesis
  proof (cases "(\<exists>v \<in> set (widgets old_states). id_state v = id_state w \<and> is_trigger v \<and> trigger_value v)
       \<and> (\<exists>n. entry_of new_states (id_state w) = Some n \<and> is_trigger n)")
    case True
    then obtain v where v: "v \<in> set (widgets old_states)" "id_state v = id_state w"
        "is_trigger v \<and> trigger_value v" by blast
    have "entry_of (coalesce_widget_states old_states new_states) (id_state w) =
            Some \<lparr>id_state = id_state w, value_oneof = Some (TriggerValue True)\<rparr>"
      unfolding entry_of_coalesce using True by (rule if_P)
    with e have "w = \<lparr>id_state = id_state w, value_oneof = Some (TriggerValue True)\<rparr>"
      by simp
    moreover have "v = \<lparr>id_state = id_state w, value_oneof = Some (TriggerValue True)\<rparr>"
      using trigger_true_eq [of v] v(2,3) by simp
    ultimately have "w = v" by simp
    with v(1) True show ?thesis by blast
  next
    case False
    have "entry_of (coalesce_widget_states old_states new_states) (id_state w) =
            entry_of new_states (id_state w)"
      unfolding entry_of_coalesce using False by (rule if_not_P)
    with e have "entry_of new_states (id_state w) = Some w"
      by simp
    with tw show ?thesis by blast
  qed
qed

text \<open>
  A true trigger re-asserted from the old snapshot over the new \<open>{a: trigger(false)}\<close>.
\<close>

theorem trigger_origin_witness:
  "(\<lparr>id_state = ''a'', value_oneof = Some (TriggerValue True)\<rparr>
      \<in> set (widgets \<lparr>widgets = [\<lparr>id_state = ''a'', value_oneof = Some (TriggerValue True)\<rparr>]\<rparr>)
    \<or> entry_of \<lparr>widgets = [\<lparr>id_state = ''a'', value_oneof = Some (TriggerValue False)\<rparr>]\<rparr>
         (id_state \<lparr>id_state = ''a'', value_oneof = Some (TriggerValue True)\<rparr>) =
       Some \<lparr>id_state = ''a'', value_oneof = Some (TriggerValue True)\<rparr>)
   \<and> (\<exists>n. entry_of \<lparr>widgets = [\<lparr>id_state = ''a'', value_oneof = Some (TriggerValue False)\<rparr>]\<rparr>
         (id_state \<lparr>id_state = ''a'', value_oneof = Some (TriggerValue True)\<rparr>) = Some n
         \<and> is_trigger n)"
  by (rule trigger_origin
        [of _ "\<lparr>widgets = [\<lparr>id_state = ''a'', value_oneof = Some (TriggerValue True)\<rparr>]\<rparr>"])
     (simp_all add: coalesce_widget_states_def index_by_id_def dict_values_def
        coalesce_step_def dict_get_def WhichOneof_def trigger_value_def)

text \<open>
  C7 (non-trigger neutrality). When no entry of the old snapshot and no entry of the new
  snapshot occupies the trigger slot, and the new snapshot's identities are unique, the
  coalesced snapshot has the same entries as the new one, up to their order.
\<close>

theorem non_trigger_neutrality:
  assumes "\<forall>w \<in> set (widgets old_states). \<not> is_trigger w"
    and "\<forall>w \<in> set (widgets new_states). \<not> is_trigger w"
    and "distinct (map id_state (widgets new_states))"
  shows "mset (widgets (coalesce_widget_states old_states new_states)) = mset (widgets new_states)"
  using coalesce_no_trigger [OF assms(1,3)] by simp

text \<open>
  An old string entry for \<open>a\<close>, a new snapshot with a boolean for \<open>b\<close> and an integer
  for \<open>a\<close>.
\<close>

theorem non_trigger_neutrality_witness:
  "mset (widgets (coalesce_widget_states
      \<lparr>widgets = [\<lparr>id_state = ''a'', value_oneof = Some (StringValue ''x'')\<rparr>]\<rparr>
      \<lparr>widgets = [\<lparr>id_state = ''b'', value_oneof = Some (BoolValue True)\<rparr>,
                  \<lparr>id_state = ''a'', value_oneof = Some (IntValue 3)\<rparr>]\<rparr>)) =
   mset (widgets
      \<lparr>widgets = [\<lparr>id_state = ''b'', value_oneof = Some (BoolValue True)\<rparr>,
                  \<lparr>id_state = ''a'', value_oneof = Some (IntValue 3)\<rparr>]\<rparr>)"
  by (rule non_trigger_neutrality) (simp_all add: is_trigger_def WhichOneof_def)

subsection \<open>Widget ids: format and keys\<close>

lemma get_widget_id_format:
  "get_widget_id P ser element_type element_proto user_key =
     P @ ''-'' @ hexdigest (encode_utf8 element_type @ ser element_proto) @ ''-''
       @ (case user_key of None \<Rightarrow> ''None'' | Some k \<Rightarrow> k)"
  by (simp add: get_widget_id_def Let_def update_def hashlib_new_md5_def str_of_user_key_def)

lemma get_widget_id_nonempty: "get_widget_id P ser element_type element_proto user_key \<noteq> []"
  by (simp add: get_widget_id_format)

lemma get_widget_id_keys_differ:
  "get_widget_id P ser element_type element_proto (Some k1) =
   get_widget_id P ser element_type element_proto (Some k2) \<longleftrightarrow> k1 = k2"
  by (simp add: get_widget_id_format)

lemma get_widget_id_None_collision:
  "get_widget_id P ser element_type element_proto (Some ''None'') =
   get_widget_id P ser element_type element_proto None"
  by (simp add: get_widget_id_format)

text \<open>
  The id of the example button without a key, computed: the MD5 is that of the bytes of
  \<^verbatim>\<open>button\<close> followed by the serialized proto.
\<close>

lemma example_button_id:
  "get_widget_id example_prefix example_serialize ''button'' example_button None =
     ''$$GENERATED_WIDGET_KEY-4a86cb11fd769a102f4c9eb3c751b258-None''"
  by code_simp

text \<open>
  C8 (identity derivation). The id is a function of its inputs and has the stated format
  (\<open>get_widget_id_format\<close>), and two supplied keys that differ give ids that differ
  (\<open>get_widget_id_keys_differ\<close>). But the absence of a key is printed as the text
  \<^verbatim>\<open>None\<close>, so a call without a key and a call with the key \<^verbatim>\<open>"None"\<close> differ only in
  the user key and derive the same id: here both derive the id just computed.
\<close>

theorem widget_id_key_collision:
  "get_widget_id example_prefix example_serialize ''button'' example_button None =
     ''$$GENERATED_WIDGET_KEY-4a86cb11fd769a102f4c9eb3c751b258-None''
   \<and> get_widget_id example_prefix example_serialize ''button'' example_button (Some ''None'') =
     ''$$GENERATED_WIDGET_KEY-4a86cb11fd769a102f4c9eb3c751b258-None''"
  by (simp add: get_widget_id_None_collision example_button_id)

subsection \<open>Registration: the claims\<close>

lemma table_keys:
  "length ELEMENT_TYPE_TO_VALUE_TYPE = 16 \<and> distinct (map fst ELEMENT_TYPE_TO_VALUE_TYPE)"
  by (simp add: ELEMENT_TYPE_TO_VALUE_TYPE_def)

text \<open>
  Registering the example button without a key in a fresh run succeeds and leaves the run
  context \<open>one_button_run\<close>.
\<close>

lemma one_button_run_reached:
  "register_widget example_prefix example_serialize example_store ''button'' example_button
      example_deserializer example_serializer (Some fresh_run) None None None None None =
   (Inr \<lparr>value_res = False, value_changed = False\<rparr>,
    example_button\<lparr>id_proto :=
       get_widget_id example_prefix example_serialize ''button'' example_button None\<rparr>,
    Some one_button_run)"
  by (simp add: register_widget_def Let_def fresh_run_def one_button_run_def example_store_def
      example_deserializer_def ELEMENT_TYPE_TO_VALUE_TYPE_def)

text \<open>
  Collisions within one run. After a call that did not end in \<^verbatim>\<open>DuplicateWidgetID\<close>,
  a call in the same run for a widget of the same element type, with an equal proto and the
  same user key (or none both times) ends in \<^verbatim>\<open>DuplicateWidgetID\<close>, and so does a call
  for any widget with the same explicit user key.
\<close>

lemma same_widget_refused:
  assumes "register_widget P ser store element_type element_proto deserializer serializer
             (Some ctx) user_key widget_func_name on_change_handler args kwargs = (res, p', Some c)"
    and "\<not> is_DuplicateWidgetID res"
  shows "is_DuplicateWidgetID
           (fst (register_widget P ser store2 element_type element_proto deserializer2 serializer2
                   (Some c) user_key widget_func_name2 on_change_handler2 args2 kwargs2))"
proof -
  have "get_widget_id P ser element_type element_proto user_key \<in> widget_ids_this_run c"
    using assms
    by (auto simp: register_widget_def Let_def split: option.splits prod.splits sum.splits if_splits)
  then show ?thesis
    by (auto simp: register_widget_def Let_def split: option.splits prod.splits sum.splits)
qed

lemma same_key_refused:
  assumes "register_widget P ser store element_type element_proto deserializer serializer
             (Some ctx) (Some k) widget_func_name on_change_handler args kwargs = (res, p', Some c)"
    and "\<not> is_DuplicateWidgetID res"
  shows "is_DuplicateWidgetID
           (fst (register_widget P ser store2 element_type2 element_proto2 deserializer2 serializer2
                   (Some c) (Some k) widget_func_name2 on_change_handler2 args2 kwargs2))"
proof -
  have "k \<in> widget_user_keys_this_run c"
    using assms
    by (auto simp: register_widget_def Let_def split: option.splits prod.splits sum.splits if_splits)
  then show ?thesis
    by (simp add: register_widget_def Let_def)
qed

text \<open>
  C9 (the descriptor's id is assigned on every path). Whatever the run context (absent or
  present) and however the call ends (a result, \<^verbatim>\<open>DuplicateWidgetID\<close>, \<^verbatim>\<open>KeyError\<close>, an
  exception of the session state), the element proto after the call is the one passed in
  with its id set to the derived widget id, which was computed from the proto as passed in.
\<close>

theorem proto_id_assigned:
  "fst (snd (register_widget P ser store element_type element_proto deserializer serializer
               ctx user_key widget_func_name on_change_handler args kwargs)) =
     element_proto\<lparr>id_proto := get_widget_id P ser element_type element_proto user_key\<rparr>"
  by (simp add: register_widget_def Let_def split: option.splits prod.splits)

text \<open>
  C4 as it is stated does not hold: without a run context the call still mutates the
  element proto. The example button has an empty id before the call and the derived id
  after it.
\<close>

theorem no_context_mutation_counterexample:
  "fst (snd (register_widget example_prefix example_serialize example_store ''button''
               example_button example_deserializer example_serializer
               None None None None None None)) \<noteq> example_button"
proof
  let ?R = "register_widget example_prefix example_serialize example_store ''button''
               example_button example_deserializer example_serializer
               None None None None None None"
  assume "fst (snd ?R) = example_button"
  then have "id_proto (fst (snd ?R)) = id_proto example_button" by simp
  then show False
    by (simp add: register_widget_def Let_def example_button_def get_widget_id_nonempty)
qed

text \<open>
  C4 (no-context fallback), amended. Without a run context the call raises nothing and
  returns the failure result that carries the deserializer's default; there is no run
  context afterwards either, so no claim set is touched; the one mutation is that the
  element proto's id becomes the derived widget id.
\<close>

theorem no_context_fallback:
  "register_widget P ser store element_type element_proto deserializer serializer
      None user_key widget_func_name on_change_handler args kwargs =
     (Inr (failure deserializer),
      element_proto\<lparr>id_proto := get_widget_id P ser element_type element_proto user_key\<rparr>,
      None)
   \<and> value_res (failure deserializer) = deserializer None []"
  by (simp add: register_widget_def Let_def failure_def)

text \<open>
  C3 (duplicate detection). With a run context present, the call raises
  \<^verbatim>\<open>DuplicateWidgetID\<close> exactly when a user key is supplied that is among the user keys
  claimed in this run, or the derived widget id is among the widget ids claimed in this
  run. In particular a call against a fresh run, whose claim sets are empty, does not
  raise it.
\<close>

theorem duplicate_detection:
  "(is_DuplicateWidgetID
      (fst (register_widget P ser store element_type element_proto deserializer serializer
              (Some ctx) user_key widget_func_name on_change_handler args kwargs))
    \<longleftrightarrow>
      ((\<exists>k. user_key = Some k \<and> k \<in> widget_user_keys_this_run ctx)
       \<or> get_widget_id P ser element_type element_proto user_key \<in> widget_ids_this_run ctx))
   \<and> (widget_user_keys_this_run ctx = {} \<and> widget_ids_this_run ctx = {} \<longrightarrow>
        \<not> is_DuplicateWidgetID
            (fst (register_widget P ser store element_type element_proto deserializer serializer
                    (Some ctx) user_key widget_func_name on_change_handler args kwargs)))"
  by (auto simp: register_widget_def Let_def split: option.splits prod.splits sum.splits)

text \<open>
  The example button in a fresh run is accepted; the same button in the run that has
  registered it is refused; a widget whose key \<^verbatim>\<open>k\<close> is already claimed is refused.
\<close>

theorem duplicate_detection_witness:
  "\<not> is_DuplicateWidgetID
      (fst (register_widget example_prefix example_serialize example_store ''button''
              example_button example_deserializer example_serializer
              (Some fresh_run) None None None None None))
   \<and> is_DuplicateWidgetID
      (fst (register_widget example_prefix example_serialize example_store ''button''
              example_button example_deserializer example_serializer
              (Some one_button_run) None None None None None))
   \<and> is_DuplicateWidgetID
      (fst (register_widget example_prefix example_serialize example_store ''checkbox''
              example_button example_deserializer example_serializer
              (Some (fresh_run\<lparr>widget_user_keys_this_run := {''k''}\<rparr>)) (Some ''k'')
              None None None None))"
  using
    duplicate_detection [of example_prefix example_serialize example_store "''button''"
      example_button example_deserializer example_serializer fresh_run None None None None None]
    duplicate_detection [of example_prefix example_serialize example_store "''button''"
      example_button example_deserializer example_serializer one_button_run None None None None None]
    duplicate_detection [of example_prefix example_serialize example_store "''checkbox''"
      example_button example_deserializer example_serializer
      "fresh_run\<lparr>widget_user_keys_this_run := {''k''}\<rparr>" "Some ''k''" None None None None]
  by (simp add: fresh_run_def one_button_run_def)

text \<open>
  C10 (an unknown element type is unguarded). With a run context present, no duplicate
  key and no duplicate id, an element type that is not one of the sixteen keys of
  \<open>ELEMENT_TYPE_TO_VALUE_TYPE\<close> makes the call raise \<^verbatim>\<open>KeyError\<close>, and the run context
  after the call has the widget id, and the user key when one is supplied, added to its
  claim sets.
\<close>

theorem unknown_element_type:
  assumes "\<not> (\<exists>k. user_key = Some k \<and> k \<in> widget_user_keys_this_run ctx)"
    and "get_widget_id P ser element_type element_proto user_key \<notin> widget_ids_this_run ctx"
    and "element_type \<notin> fst ` set ELEMENT_TYPE_TO_VALUE_TYPE"
  shows "register_widget P ser store element_type element_proto deserializer serializer
             (Some ctx) user_key widget_func_name on_change_handler args kwargs =
         (Inl (KeyError element_type),
          element_proto\<lparr>id_proto := get_widget_id P ser element_type element_proto user_key\<rparr>,
          Some (ctx\<lparr>widget_ids_this_run :=
                       insert (get_widget_id P ser element_type element_proto user_key)
                         (widget_ids_this_run ctx),
                     widget_user_keys_this_run :=
                       (case user_key of Some k \<Rightarrow> insert k (widget_user_keys_this_run ctx)
                                       | None \<Rightarrow> widget_user_keys_this_run ctx)\<rparr>))"
proof -
  have "map_of ELEMENT_TYPE_TO_VALUE_TYPE element_type = None"
    using assms(3) by (simp add: map_of_eq_None_iff)
  with assms(1,2) show ?thesis
    by (cases user_key) (simp_all add: register_widget_def Let_def)
qed

text \<open>
  The element type \<^verbatim>\<open>toggle\<close> with the key \<^verbatim>\<open>k\<close> in a fresh run.
\<close>

theorem unknown_element_type_witness:
  "register_widget example_prefix example_serialize example_store ''toggle'' example_button
      example_deserializer example_serializer (Some fresh_run) (Some ''k'') None None None None =
   (Inl (KeyError ''toggle''),
    example_button\<lparr>id_proto :=
       get_widget_id example_prefix example_serialize ''toggle'' example_button (Some ''k'')\<rparr>,
    Some \<lparr>widget_ids_this_run =
            {get_widget_id example_prefix example_serialize ''toggle'' example_button (Some ''k'')},
          widget_user_keys_this_run = {''k''}, session_state = ()\<rparr>)"
  using unknown_element_type [of "Some ''k''" fresh_run example_prefix example_serialize
      "''toggle''" example_button example_store example_deserializer example_serializer
      None None None None]
  by (simp add: fresh_run_def ELEMENT_TYPE_TO_VALUE_TYPE_def)




end
